theory Spec2Isabelle
  imports Complex_Main "HOL-Library.Word"
begin

unbundle bit_operations_syntax

section \<open>Python values used by the driver\<close>

text \<open>
  The driver \<^verbatim>\<open>adafruit_fxas21002c.py\<close> works on Python integers (unbounded, modelled
  as \<^typ>\<open>int\<close>), on the elements of a \<^verbatim>\<open>bytearray\<close> (integers in 0..255, modelled
  as 8-bit words and read back with \<^const>\<open>uint\<close>) and on floats.

  Four exceptions can leave the driver: the \<^verbatim>\<open>assert\<close> of the constructor, its
  \<^verbatim>\<open>RuntimeError\<close>, whatever the bus collaborator raises (an \<^verbatim>\<open>OSError\<close>), and
  the \<^verbatim>\<open>IndexError\<close> of an access beyond the end of the buffer.
\<close>

type_synonym u8 = "8 word"

datatype error = AssertionError | RuntimeError string | OSError | IndexError

subsection \<open>Floats\<close>

text \<open>
  A finite binary float is a significand and an exponent, with value \<open>m * 2 ^ e\<close>.
  A literal, a conversion from an integer and a product each compute the exact result
  and round it to \<open>float_prec\<close> significant bits, ties to even, as IEEE 754
  prescribes for binary64. The exponent range is not modelled: the driver only produces
  zero and values between \<open>2 ^ -7\<close> and \<open>2 ^ 12\<close>, far from overflow and from the
  subnormal numbers.
\<close>

datatype float = Float int int

fun valof :: "float \<Rightarrow> real" where
  "valof (Float m e) = of_int m * 2 powi e"

definition float_prec :: nat where
  "float_prec = 53"

text \<open>\<^verbatim>\<open>n.bit_length()\<close> for a non-negative integer.\<close>

function bit_length :: "int \<Rightarrow> nat" where
  "bit_length n = (if n \<le> 0 then 0 else Suc (bit_length (n div 2)))"
  by pat_completeness auto
termination
  by (relation "measure nat") auto

declare bit_length.simps [simp del]

fun round_float :: "float \<Rightarrow> float" where
  "round_float (Float m e) =
     (let n = bit_length \<bar>m\<bar> in
      if n \<le> float_prec then Float m e
      else
        let s = n - float_prec;
            q = m div 2 ^ s;
            r = m mod 2 ^ s;
            half = 2 ^ (s - 1)
        in if half < r then Float (q + 1) (e + int s)
           else if r = half \<and> q mod 2 = 1 then Float (q + 1) (e + int s)
           else Float q (e + int s))"

text \<open>\<^verbatim>\<open>float(n)\<close> for an integer, as the mixed product \<^verbatim>\<open>x * 0.0625\<close> converts \<^verbatim>\<open>x\<close>.\<close>

definition float_of_int :: "int \<Rightarrow> float" where
  "float_of_int n = round_float (Float n 0)"

fun float_mul :: "float \<Rightarrow> float \<Rightarrow> float" where
  "float_mul (Float m1 e1) (Float m2 e2) = round_float (Float (m1 * m2) (e1 + e2))"

text \<open>
  A decimal literal with the digits \<open>d\<close>, the last \<open>n\<close> of them after the point:
  the float nearest to \<open>d / 10 ^ n\<close>. The quotient is taken with 64 bits more than
  the divisor has, and a last bit records whether the division left a remainder, so
  that the rounding sees on which side of a tie the number lies.
\<close>

definition float_of_decimal :: "int \<Rightarrow> nat \<Rightarrow> float" where
  "float_of_decimal d n =
     (let q = 10 ^ n;
          k = 64 + bit_length q;
          a = d * 2 ^ k;
          sticky = (if a mod q = 0 then 0 else 1)
      in round_float (Float (2 * (a div q) + sticky) (- int k - 1)))"

section \<open>Constants of the module\<close>

definition FXAS21002C_ADDRESS :: int where "FXAS21002C_ADDRESS = 0x21"
definition FXAS21002C_ID :: int where "FXAS21002C_ID = 0xD7"
definition GYRO_REGISTER_STATUS :: int where "GYRO_REGISTER_STATUS = 0x00"
definition GYRO_REGISTER_WHO_AM_I :: int where "GYRO_REGISTER_WHO_AM_I = 0x0C"
definition GYRO_REGISTER_CTRL_REG0 :: int where "GYRO_REGISTER_CTRL_REG0 = 0x0D"
definition GYRO_REGISTER_CTRL_REG1 :: int where "GYRO_REGISTER_CTRL_REG1 = 0x13"

text \<open>
  The four sensitivity literals \<^verbatim>\<open>0.0078125\<close>, \<^verbatim>\<open>0.015625\<close>, \<^verbatim>\<open>0.03125\<close> and
  \<^verbatim>\<open>0.0625\<close>.
\<close>

definition GYRO_SENSITIVITY_250DPS :: float where
  "GYRO_SENSITIVITY_250DPS = float_of_decimal 78125 7"
definition GYRO_SENSITIVITY_500DPS :: float where
  "GYRO_SENSITIVITY_500DPS = float_of_decimal 15625 6"
definition GYRO_SENSITIVITY_1000DPS :: float where
  "GYRO_SENSITIVITY_1000DPS = float_of_decimal 3125 5"
definition GYRO_SENSITIVITY_2000DPS :: float where
  "GYRO_SENSITIVITY_2000DPS = float_of_decimal 625 4"

definition GYRO_RANGE_250DPS :: int where "GYRO_RANGE_250DPS = 250"
definition GYRO_RANGE_500DPS :: int where "GYRO_RANGE_500DPS = 500"
definition GYRO_RANGE_1000DPS :: int where "GYRO_RANGE_1000DPS = 1000"
definition GYRO_RANGE_2000DPS :: int where "GYRO_RANGE_2000DPS = 2000"

section \<open>The bus collaborator\<close>

text \<open>
  \<^verbatim>\<open>adafruit_bus_device.i2c_device\<close> is not part of the driver. The driver uses four
  of its operations: entering and leaving the \<^verbatim>\<open>with\<close> block, \<^verbatim>\<open>write\<close> and
  \<^verbatim>\<open>readinto\<close>. Each call is recorded in a trace, together with the settling delay
  of the constructor. What the sensor answers, and whether a transfer fails, is decided
  by the bus, as a function of everything done so far: \<open>reply t i\<close> is byte \<open>i\<close> of
  the answer to the read that ends the trace \<open>t\<close>, and \<open>fault t\<close> says that the
  transfer that ends \<open>t\<close> raises.
\<close>

datatype event =
    Enter
  | Exit
  | Write "u8 list" bool
  | Readinto nat
  | Sleep nat

record I2C =
  reply :: "event list \<Rightarrow> nat \<Rightarrow> u8"
  fault :: "event list \<Rightarrow> bool"

record I2CDevice =
  i2c :: I2C
  device_address :: int

text \<open>
  The state the driver changes: the class-level \<^verbatim>\<open>_BUFFER\<close> shared by all instances,
  and the trace.
\<close>

record world =
  BUFFER :: "u8 list"
  trace :: "event list"

type_synonym 'a result = "(error + 'a) \<times> world"

text \<open>One statement after another: an exception of the first ends the sequence.\<close>

definition and_then :: "'a result \<Rightarrow> ('a \<Rightarrow> world \<Rightarrow> 'b result) \<Rightarrow> 'b result" where
  "and_then m f = (case m of (Inl e, w) \<Rightarrow> (Inl e, w) | (Inr x, w) \<Rightarrow> f x w)"

definition bytearray :: "nat \<Rightarrow> u8 list" where
  "bytearray n = replicate n 0"

text \<open>
  \<^verbatim>\<open>_BUFFER[i] = v\<close> and \<^verbatim>\<open>_BUFFER[i]\<close>, with the \<^verbatim>\<open>IndexError\<close> of Python beyond
  the end. Python also raises for a value outside 0..255; the driver only stores values
  masked with \<^verbatim>\<open>0xFF\<close> and the constant \<^verbatim>\<open>0x00 | 0x80\<close>, which \<^const>\<open>word_of_int\<close>
  keeps as they are.
\<close>

definition setitem :: "nat \<Rightarrow> int \<Rightarrow> world \<Rightarrow> unit result" where
  "setitem i v w =
     (if i < length (BUFFER w) then (Inr (), w\<lparr>BUFFER := (BUFFER w)[i := word_of_int v]\<rparr>)
      else (Inl IndexError, w))"

definition getitem :: "nat \<Rightarrow> world \<Rightarrow> int result" where
  "getitem i w =
     (if i < length (BUFFER w) then (Inr (uint (BUFFER w ! i)), w)
      else (Inl IndexError, w))"

definition device_enter :: "world \<Rightarrow> world" where
  "device_enter w = w\<lparr>trace := trace w @ [Enter]\<rparr>"

definition device_exit :: "world \<Rightarrow> world" where
  "device_exit w = w\<lparr>trace := trace w @ [Exit]\<rparr>"

text \<open>
  \<^verbatim>\<open>device.write(_BUFFER, end=n, stop=stop)\<close> sends the first \<open>n\<close> bytes of the
  buffer, or all of it when it is shorter.
\<close>

definition device_write :: "I2CDevice \<Rightarrow> nat \<Rightarrow> bool \<Rightarrow> world \<Rightarrow> unit result" where
  "device_write device n stop w =
     (let t = trace w @ [Write (take n (BUFFER w)) stop]
      in if fault (i2c device) t then (Inl OSError, w\<lparr>trace := t\<rparr>)
         else (Inr (), w\<lparr>trace := t\<rparr>))"

text \<open>
  \<^verbatim>\<open>device.readinto(_BUFFER, end=n)\<close> overwrites the first \<open>n\<close> bytes of the buffer,
  or all of it when it is shorter.
\<close>

definition device_readinto :: "I2CDevice \<Rightarrow> nat \<Rightarrow> world \<Rightarrow> unit result" where
  "device_readinto device n w =
     (let k = min n (length (BUFFER w));
          t = trace w @ [Readinto k]
      in if fault (i2c device) t then (Inl OSError, w\<lparr>trace := t\<rparr>)
         else (Inr (), w\<lparr>BUFFER := map (reply (i2c device) t) [0..<k] @ drop k (BUFFER w),
                         trace := t\<rparr>))"

text \<open>
  \<^verbatim>\<open>with self._device:\<close> runs the body between \<^const>\<open>Enter\<close> and \<^const>\<open>Exit\<close>; the
  bus is released on every path and an exception of the body goes on to the caller.
\<close>

definition with_device :: "(world \<Rightarrow> 'a result) \<Rightarrow> world \<Rightarrow> 'a result" where
  "with_device body w = (case body (device_enter w) of (r, w') \<Rightarrow> (r, device_exit w'))"

section \<open>The driver\<close>

text \<open>
  An object of the class holds the range and the device handle. Creating the handle,
  \<^verbatim>\<open>I2CDevice(i2c, address)\<close>, is taken to leave the trace as it is: the trace holds
  what the driver itself asks of the bus.
\<close>

record FXAS21002C =
  self_gyro_range :: int
  self_device :: I2CDevice

definition read_u8 :: "FXAS21002C \<Rightarrow> int \<Rightarrow> world \<Rightarrow> int result" where
  "read_u8 self address w =
     and_then (with_device (\<lambda>w.
         and_then (setitem 0 (address AND 0xFF) w) (\<lambda>_ w.
         and_then (device_write (self_device self) 1 False w) (\<lambda>_ w.
         device_readinto (self_device self) 1 w))) w) (\<lambda>_ w.
     getitem 0 w)"

definition write_u8 :: "FXAS21002C \<Rightarrow> int \<Rightarrow> int \<Rightarrow> world \<Rightarrow> unit result" where
  "write_u8 self address val w =
     with_device (\<lambda>w.
         and_then (setitem 0 (address AND 0xFF) w) (\<lambda>_ w.
         and_then (setitem 1 (val AND 0xFF) w) (\<lambda>_ w.
         device_write (self_device self) 2 True w))) w"

text \<open>The \<^verbatim>\<open>if\<close>/\<^verbatim>\<open>elif\<close> chain of the constructor, with its initial value \<^verbatim>\<open>0x00\<close>.\<close>

definition ctrlReg0 :: "int \<Rightarrow> int" where
  "ctrlReg0 gyro_range =
     (if gyro_range = GYRO_RANGE_250DPS then 0x03
      else if gyro_range = GYRO_RANGE_500DPS then 0x02
      else if gyro_range = GYRO_RANGE_1000DPS then 0x01
      else if gyro_range = GYRO_RANGE_2000DPS then 0x00
      else 0x00)"

definition init :: "I2C \<Rightarrow> int \<Rightarrow> int \<Rightarrow> world \<Rightarrow> FXAS21002C result" where
  "init bus address gyro_range w =
     (if gyro_range \<notin> {GYRO_RANGE_250DPS, GYRO_RANGE_500DPS,
                        GYRO_RANGE_1000DPS, GYRO_RANGE_2000DPS}
      then (Inl AssertionError, w)
      else
        let self = \<lparr>self_gyro_range = gyro_range,
                    self_device = \<lparr>i2c = bus, device_address = address\<rparr>\<rparr>
        in and_then (read_u8 self GYRO_REGISTER_WHO_AM_I w) (\<lambda>chip_id w.
             if chip_id \<noteq> FXAS21002C_ID
             then (Inl (RuntimeError ''Failed to find FXAS21002C, check wiring!''), w)
             else
               and_then (write_u8 self GYRO_REGISTER_CTRL_REG0 (ctrlReg0 gyro_range) w) (\<lambda>_ w.
               and_then (write_u8 self GYRO_REGISTER_CTRL_REG1 0x0E w) (\<lambda>_ w.
               (Inr self, w\<lparr>trace := trace w @ [Sleep 100]\<rparr>)))))"

definition read_raw :: "FXAS21002C \<Rightarrow> world \<Rightarrow> (int \<times> int \<times> int) result" where
  "read_raw self w =
     and_then (with_device (\<lambda>w.
         and_then (setitem 0 (GYRO_REGISTER_STATUS OR 0x80) w) (\<lambda>_ w.
         and_then (device_write (self_device self) 1 False w) (\<lambda>_ w.
         device_readinto (self_device self) (length (BUFFER w)) w))) w) (\<lambda>_ w.
     and_then (getitem 0 w) (\<lambda>status w.
     and_then (getitem 1 w) (\<lambda>xhi w.
     and_then (getitem 2 w) (\<lambda>xlo w.
     and_then (getitem 3 w) (\<lambda>yhi w.
     and_then (getitem 4 w) (\<lambda>ylo w.
     and_then (getitem 5 w) (\<lambda>zhi w.
     and_then (getitem 6 w) (\<lambda>zlo w.
       let raw_x = (push_bit 8 xhi OR xlo) AND 0xFFFF;
           raw_y = (push_bit 8 yhi OR ylo) AND 0xFFFF;
           raw_z = (push_bit 8 zhi OR zlo) AND 0xFFFF
       in (Inr (raw_x, raw_y, raw_z), w)))))))))"

text \<open>
  \<^verbatim>\<open>map(f, raw)\<close> computes nothing: it returns an iterator that holds \<open>f\<close> and the
  items of \<open>raw\<close> it has not yet taken. \<^verbatim>\<open>next\<close> takes the first of them, applies
  \<open>f\<close> and leaves the iterator with the rest, or ends the iteration when none is
  left (the value \<open>None\<close> here); a second pass over the same object finds nothing.
  \<open>yields\<close> is what one pass produces, as in \<^verbatim>\<open>x, y, z = sensor.gyroscope\<close>. The
  object is not a tuple: it has no length and no subscript.
\<close>

datatype map_object = MapObject "int \<Rightarrow> float" "int list"

fun next_item :: "map_object \<Rightarrow> (float \<times> map_object) option" where
  "next_item (MapObject f []) = None"
| "next_item (MapObject f (x # xs)) = Some (f x, MapObject f xs)"

fun yields :: "map_object \<Rightarrow> float list" where
  "yields (MapObject f xs) = map f xs"

text \<open>
  The \<^verbatim>\<open>gyroscope\<close> property returns the map object over the tuple of
  \<^verbatim>\<open>read_raw\<close>; when no branch of the chain is taken it returns \<^verbatim>\<open>None\<close>.
\<close>

definition gyroscope :: "FXAS21002C \<Rightarrow> world \<Rightarrow> map_object option result" where
  "gyroscope self w =
     and_then (read_raw self w) (\<lambda>(raw_x, raw_y, raw_z) w.
       let raw = [raw_x, raw_y, raw_z]
       in if self_gyro_range self = GYRO_RANGE_250DPS
          then (Inr (Some (MapObject (\<lambda>x. float_mul (float_of_int x) GYRO_SENSITIVITY_250DPS) raw)), w)
          else if self_gyro_range self = GYRO_RANGE_500DPS
          then (Inr (Some (MapObject (\<lambda>x. float_mul (float_of_int x) GYRO_SENSITIVITY_500DPS) raw)), w)
          else if self_gyro_range self = GYRO_RANGE_1000DPS
          then (Inr (Some (MapObject (\<lambda>x. float_mul (float_of_int x) GYRO_SENSITIVITY_1000DPS) raw)), w)
          else if self_gyro_range self = GYRO_RANGE_2000DPS
          then (Inr (Some (MapObject (\<lambda>x. float_mul (float_of_int x) GYRO_SENSITIVITY_2000DPS) raw)), w)
          else (Inr None, w))"

section \<open>The tables of the specification and a mock bus\<close>

text \<open>
  The specification gives two tables over the measurement range, the configuration
  byte and the sensitivity constant, and reads the first one backwards as a decoding.
  They are written here as the specification has them, to be compared with the code.
\<close>

definition spec_config_byte :: "int \<rightharpoonup> u8" where
  "spec_config_byte = [250 \<mapsto> 0x03, 500 \<mapsto> 0x02, 1000 \<mapsto> 0x01, 2000 \<mapsto> 0x00]"

definition spec_range_of_config :: "u8 \<rightharpoonup> int" where
  "spec_range_of_config = [0x03 \<mapsto> 250, 0x02 \<mapsto> 500, 0x01 \<mapsto> 1000, 0x00 \<mapsto> 2000]"

definition spec_sensitivity :: "int \<rightharpoonup> real" where
  "spec_sensitivity =
     [250 \<mapsto> 0.0078125, 500 \<mapsto> 0.015625, 1000 \<mapsto> 0.03125, 2000 \<mapsto> 0.0625]"

text \<open>
  The mock bus of the testable properties: every transfer succeeds and every read is
  answered with the given bytes (and zeros after them).
\<close>

definition mock_i2c :: "u8 list \<Rightarrow> I2C" where
  "mock_i2c bytes =
     \<lparr>reply = (\<lambda>t i. if i < length bytes then bytes ! i else 0), fault = (\<lambda>t. False)\<rparr>"

text \<open>The state when the module has been loaded: \<^verbatim>\<open>_BUFFER = bytearray(7)\<close>, nothing done.\<close>

definition initial_world :: world where
  "initial_world = \<lparr>BUFFER = bytearray 7, trace = []\<rparr>"

section \<open>Rounding leaves short significands alone\<close>

lemma bit_length_le: "m < 2 ^ k \<Longrightarrow> bit_length m \<le> k"
proof (induction k arbitrary: m)
  case 0
  then show ?case by (simp add: bit_length.simps)
next
  case (Suc k)
  show ?case
  proof (cases "m \<le> 0")
    case True
    then show ?thesis by (simp add: bit_length.simps)
  next
    case False
    from Suc.prems have "m div 2 < 2 ^ k" by simp
    then have "bit_length (m div 2) \<le> k" by (rule Suc.IH)
    with False show ?thesis by (subst bit_length.simps) simp
  qed
qed

lemma round_float_exact: "\<bar>m\<bar> < 2 ^ float_prec \<Longrightarrow> round_float (Float m e) = Float m e"
  using bit_length_le [of "\<bar>m\<bar>" float_prec] by (simp add: Let_def)

lemma valof_shift: "valof (Float (m * 2 ^ s) e) = valof (Float m (e + int s))"
  by (simp add: power_int_add)

text \<open>
  A significand of at most \<open>float_prec\<close> bits followed by zeros is rounded to the
  same number.
\<close>

lemma round_float_valof:
  assumes "\<bar>a\<bar> < 2 ^ float_prec"
  shows "valof (round_float (Float (a * 2 ^ j) e)) = valof (Float (a * 2 ^ j) e)"
proof (cases "bit_length \<bar>a * 2 ^ j\<bar> \<le> float_prec")
  case True
  then show ?thesis by (simp add: Let_def)
next
  case False
  define s where "s = bit_length \<bar>a * 2 ^ j\<bar> - float_prec"
  from assms have "\<bar>a * 2 ^ j\<bar> < 2 ^ (float_prec + j)"
    by (simp add: abs_mult power_add)
  then have "bit_length \<bar>a * 2 ^ j\<bar> \<le> float_prec + j" by (rule bit_length_le)
  with False have s: "0 < s" "s \<le> j" by (simp_all add: s_def)
  then obtain i where j: "j = s + i" using le_Suc_ex by blast
  have m: "a * 2 ^ j = (a * 2 ^ i) * 2 ^ s" by (simp add: j power_add)
  have q: "(a * 2 ^ j) div 2 ^ s = a * 2 ^ i" and r: "(a * 2 ^ j) mod 2 ^ s = 0"
    by (simp_all add: m)
  have half: "(0::int) < 2 ^ (s - 1)" by simp
  have "round_float (Float (a * 2 ^ j) e) = Float (a * 2 ^ i) (e + int s)"
    using False half by (simp add: Let_def s_def [symmetric] q r)
  then show ?thesis by (simp add: m valof_shift del: valof.simps)
qed

declare round_float.simps [simp del]

text \<open>The four literals are powers of two, with the significand \<open>2 ^ 52\<close>.\<close>

lemma sensitivity_values:
  "GYRO_SENSITIVITY_250DPS = Float (2 ^ 52) (- 59)"
  "GYRO_SENSITIVITY_500DPS = Float (2 ^ 52) (- 58)"
  "GYRO_SENSITIVITY_1000DPS = Float (2 ^ 52) (- 57)"
  "GYRO_SENSITIVITY_2000DPS = Float (2 ^ 52) (- 56)"
  unfolding GYRO_SENSITIVITY_250DPS_def GYRO_SENSITIVITY_500DPS_def
    GYRO_SENSITIVITY_1000DPS_def GYRO_SENSITIVITY_2000DPS_def
  by code_simp+

text \<open>The product of a 16-bit integer and such a power of two is not rounded.\<close>

lemma scale_exact:
  assumes "0 \<le> x" and "x \<le> 65535"
  shows "valof (float_mul (float_of_int x) (Float (2 ^ 52) e)) = of_int x * 2 powi (e + 52)"
proof -
  from assms have x: "\<bar>x\<bar> < 2 ^ float_prec" by (simp add: float_prec_def)
  then have "float_of_int x = Float x 0"
    unfolding float_of_int_def by (rule round_float_exact)
  then have "valof (float_mul (float_of_int x) (Float (2 ^ 52) e))
      = valof (round_float (Float (x * 2 ^ 52) e))"
    by simp
  also have "\<dots> = valof (Float (x * 2 ^ 52) e)"
    using x by (rule round_float_valof)
  also have "\<dots> = valof (Float x (e + int 52))"
    by (rule valof_shift)
  finally show ?thesis by simp
qed

lemma scale_sensitivity:
  assumes "0 \<le> x" and "x \<le> 65535"
  shows "valof (float_mul (float_of_int x) GYRO_SENSITIVITY_250DPS) = of_int x * 0.0078125"
    and "valof (float_mul (float_of_int x) GYRO_SENSITIVITY_500DPS) = of_int x * 0.015625"
    and "valof (float_mul (float_of_int x) GYRO_SENSITIVITY_1000DPS) = of_int x * 0.03125"
    and "valof (float_mul (float_of_int x) GYRO_SENSITIVITY_2000DPS) = of_int x * 0.0625"
  unfolding sensitivity_values scale_exact [OF assms]
  by (simp_all add: power_int_minus)

lemma valof_sensitivity:
  "valof GYRO_SENSITIVITY_250DPS = 0.0078125"
  "valof GYRO_SENSITIVITY_500DPS = 0.015625"
  "valof GYRO_SENSITIVITY_1000DPS = 0.03125"
  "valof GYRO_SENSITIVITY_2000DPS = 0.0625"
  by (simp_all add: sensitivity_values power_int_minus)

section \<open>Packing two bytes\<close>

lemma pack_eq:
  fixes hi lo :: u8
  shows "(push_bit 8 (uint hi) OR uint lo) AND 0xFFFF = uint hi * 256 + uint lo"
proof -
  have lo: "take_bit 8 (uint lo) = uint lo"
    by (rule take_bit_int_eq_self) (use uint_bounded [of lo] in simp_all)
  have "push_bit 8 (uint hi) OR uint lo = concat_bit 8 (uint lo) (uint hi)"
    by (simp add: concat_bit_def lo or.commute)
  also have "\<dots> = uint lo + push_bit 8 (uint hi)"
    by (simp add: concat_bit_eq lo)
  also have "\<dots> = uint hi * 256 + uint lo"
    by (simp add: push_bit_eq_mult)
  finally have eq: "push_bit 8 (uint hi) OR uint lo = uint hi * 256 + uint lo" .
  have "uint hi * 256 + uint lo < 2 ^ 16" "0 \<le> uint hi * 256 + uint lo"
    using uint_bounded [of hi] uint_bounded [of lo] by simp_all
  then have "take_bit 16 (uint hi * 256 + uint lo) = uint hi * 256 + uint lo"
    by (simp add: take_bit_int_eq_self)
  moreover have "(uint hi * 256 + uint lo) AND 0xFFFF = take_bit 16 (uint hi * 256 + uint lo)"
    by (simp add: take_bit_eq_mask mask_eq_exp_minus_1)
  ultimately show ?thesis by (simp add: eq)
qed

lemma pack_bounds:
  fixes hi lo :: u8
  shows "0 \<le> (push_bit 8 (uint hi) OR uint lo) AND 0xFFFF
       \<and> (push_bit 8 (uint hi) OR uint lo) AND 0xFFFF \<le> 65535"
  unfolding pack_eq using uint_bounded [of hi] uint_bounded [of lo] by simp

section \<open>The three bus operations on a bus that does not fail\<close>

lemmas bus_defs = and_then_def setitem_def getitem_def with_device_def device_enter_def
  device_exit_def device_write_def device_readinto_def

lemma read_u8_reliable:
  assumes "\<forall>t. \<not> fault (i2c (self_device self)) t" and "BUFFER w \<noteq> []"
  shows "read_u8 self address w =
    (let t = trace w @ [Enter, Write [word_of_int (address AND 0xFF)] False, Readinto 1];
         b = reply (i2c (self_device self)) t 0
     in (Inr (uint b), w\<lparr>BUFFER := b # tl (BUFFER w), trace := t @ [Exit]\<rparr>))"
  using assms
  by (cases "BUFFER w") (simp_all add: read_u8_def bus_defs Let_def)

lemma write_u8_reliable:
  assumes "\<forall>t. \<not> fault (i2c (self_device self)) t" and "2 \<le> length (BUFFER w)"
  shows "write_u8 self address val w =
    (let bs = [word_of_int (address AND 0xFF), word_of_int (val AND 0xFF)]
     in (Inr (), w\<lparr>BUFFER := bs @ drop 2 (BUFFER w),
                    trace := trace w @ [Enter, Write bs True, Exit]\<rparr>))"
proof -
  from assms(2) obtain a b rest where "BUFFER w = a # b # rest"
    by (cases "BUFFER w"; cases "tl (BUFFER w)") auto
  with assms(1) show ?thesis
    by (simp add: write_u8_def bus_defs Let_def)
qed

lemma read_raw_reliable:
  assumes "\<not> fault (i2c (self_device self)) (trace w @ [Enter, Write [0x80] False])"
    and "\<not> fault (i2c (self_device self)) (trace w @ [Enter, Write [0x80] False, Readinto 7])"
    and "length (BUFFER w) = 7"
  shows "read_raw self w =
    (let t = trace w @ [Enter, Write [0x80] False, Readinto 7];
         r = reply (i2c (self_device self)) t
     in (Inr ((push_bit 8 (uint (r 1)) OR uint (r 2)) AND 0xFFFF,
              (push_bit 8 (uint (r 3)) OR uint (r 4)) AND 0xFFFF,
              (push_bit 8 (uint (r 5)) OR uint (r 6)) AND 0xFFFF),
         w\<lparr>BUFFER := map r [0..<7], trace := t @ [Exit]\<rparr>))"
proof -
  from assms(3) obtain a rest where "BUFFER w = a # rest" "length rest = 6"
    by (cases "BUFFER w") auto
  with assms(1,2) show ?thesis
    by (simp add: read_raw_def bus_defs GYRO_REGISTER_STATUS_def Let_def upt_rec
        eval_nat_numeral)
qed

section \<open>Evaluation helpers\<close>

lemmas const_defs = FXAS21002C_ADDRESS_def FXAS21002C_ID_def GYRO_REGISTER_STATUS_def
  GYRO_REGISTER_WHO_AM_I_def GYRO_REGISTER_CTRL_REG0_def GYRO_REGISTER_CTRL_REG1_def
  GYRO_RANGE_250DPS_def GYRO_RANGE_500DPS_def GYRO_RANGE_1000DPS_def GYRO_RANGE_2000DPS_def

lemma initial_world_eq: "initial_world = \<lparr>BUFFER = [0, 0, 0, 0, 0, 0, 0], trace = []\<rparr>"
  by (simp add: initial_world_def bytearray_def eval_nat_numeral)

lemma uint_D7: "(uint (b::u8) = 0xD7) = (b = 0xD7)"
proof
  assume "uint b = 0xD7"
  then have "word_of_int (uint b) = (word_of_int 0xD7 :: u8)" by simp
  then show "b = 0xD7" by simp
next
  assume "b = 0xD7"
  then show "uint b = 0xD7" by simp
qed

section \<open>Construction\<close>

text \<open>
  Claim C1. For each of the four ranges 250, 500, 1000 and 2000, with its configuration
  byte \<open>c\<close> taken from the table of the specification (0x03, 0x02, 0x01, 0x00), a
  construction on a bus that answers the identity read with 0xD7 and on which no
  transfer fails succeeds. After the identity read (write of 0x0C without stop, read of
  one byte), it writes the two bytes 0x0D, \<open>c\<close> in one transaction and then the two
  bytes 0x13, 0x0E in the next one, in that order, and sleeps; it does nothing else on
  the bus.
\<close>

theorem init_configures_range:
  assumes "spec_config_byte gyro_range = Some c"
    and "length (BUFFER w) = 7"
    and "\<forall>t. \<not> fault bus t"
    and "reply bus (trace w @ [Enter, Write [0x0C] False, Readinto 1]) 0 = 0xD7"
  shows "init bus address gyro_range w =
     (Inr \<lparr>self_gyro_range = gyro_range,
           self_device = \<lparr>i2c = bus, device_address = address\<rparr>\<rparr>,
      w\<lparr>BUFFER := [0x13, 0x0E] @ drop 2 (BUFFER w),
        trace := trace w @ [Enter, Write [0x0C] False, Readinto 1, Exit,
                            Enter, Write [0x0D, c] True, Exit,
                            Enter, Write [0x13, 0x0E] True, Exit, Sleep 100]\<rparr>)"
proof -
  from assms(1) have range:
    "gyro_range = 250 \<and> c = 0x03 \<or> gyro_range = 500 \<and> c = 0x02
       \<or> gyro_range = 1000 \<and> c = 0x01 \<or> gyro_range = 2000 \<and> c = 0x00"
    by (auto simp: spec_config_byte_def split: if_splits)
  from assms(2) obtain a b rest where buf: "BUFFER w = a # b # rest"
    by (cases "BUFFER w"; cases "tl (BUFFER w)") auto
  from range assms(3,4) show ?thesis
    by (auto simp add: init_def and_then_def ctrlReg0_def const_defs read_u8_reliable
        write_u8_reliable buf Let_def)
qed

theorem init_configures_range_witness:
  "init (mock_i2c [0xD7]) FXAS21002C_ADDRESS GYRO_RANGE_500DPS initial_world =
     (Inr \<lparr>self_gyro_range = 500,
           self_device = \<lparr>i2c = mock_i2c [0xD7], device_address = 0x21\<rparr>\<rparr>,
      \<lparr>BUFFER = [0x13, 0x0E, 0, 0, 0, 0, 0],
       trace = [Enter, Write [0x0C] False, Readinto 1, Exit,
                Enter, Write [0x0D, 0x02] True, Exit,
                Enter, Write [0x13, 0x0E] True, Exit, Sleep 100]\<rparr>)"
  using init_configures_range [of 500 "0x02" initial_world "mock_i2c [0xD7]" "0x21"]
  by (simp add: spec_config_byte_def initial_world_def bytearray_def mock_i2c_def const_defs
      eval_nat_numeral)

text \<open>
  Claim C4. When the range is one of the four and the identity read succeeds with a
  byte \<open>b\<close> other than 0xD7, the construction raises the \<^verbatim>\<open>RuntimeError\<close> whose
  message asks to check the wiring, and the only transaction on the bus is the identity
  read: nothing is written to register 0x0D or 0x13.
\<close>

theorem init_wrong_identity:
  assumes "gyro_range \<in> {250, 500, 1000, 2000}"
    and "length (BUFFER w) = 7"
    and "\<forall>t. \<not> fault bus t"
    and "reply bus (trace w @ [Enter, Write [0x0C] False, Readinto 1]) 0 = b"
    and "b \<noteq> 0xD7"
  shows "init bus address gyro_range w =
     (Inl (RuntimeError ''Failed to find FXAS21002C, check wiring!''),
      w\<lparr>BUFFER := b # tl (BUFFER w),
        trace := trace w @ [Enter, Write [0x0C] False, Readinto 1, Exit]\<rparr>)"
proof -
  from assms(2) have len: "BUFFER w \<noteq> []" by auto
  from assms(5) have "uint b \<noteq> 0xD7"
    by (simp add: uint_D7)
  with assms(1,3,4) len show ?thesis
    by (auto simp add: init_def and_then_def const_defs read_u8_reliable Let_def)
qed

theorem init_wrong_identity_witness:
  "init (mock_i2c [0x00]) FXAS21002C_ADDRESS GYRO_RANGE_250DPS initial_world =
     (Inl (RuntimeError ''Failed to find FXAS21002C, check wiring!''),
      \<lparr>BUFFER = [0, 0, 0, 0, 0, 0, 0],
       trace = [Enter, Write [0x0C] False, Readinto 1, Exit]\<rparr>)"
  using init_wrong_identity [of 250 initial_world "mock_i2c [0x00]" "0x00" "0x21"]
  by (simp add: initial_world_eq mock_i2c_def const_defs)

text \<open>
  Claim C7. A range that is none of 250, 500, 1000 and 2000 fails the \<^verbatim>\<open>assert\<close> of
  the constructor: the construction ends with the assertion error, returns no driver
  object and has touched neither the bus nor the buffer.
\<close>

theorem init_rejects_other_ranges:
  assumes "gyro_range \<notin> {250, 500, 1000, 2000}"
  shows "init bus address gyro_range w = (Inl AssertionError, w)"
  using assms by (simp add: init_def const_defs)

theorem init_rejects_other_ranges_witness:
  "(125::int) \<notin> {250, 500, 1000, 2000}
   \<and> init (mock_i2c [0xD7]) FXAS21002C_ADDRESS 125 initial_world
       = (Inl AssertionError, initial_world)"
  using init_rejects_other_ranges [of 125 "mock_i2c [0xD7]" FXAS21002C_ADDRESS initial_world]
  by simp

text \<open>
  Claim C8. On the four ranges the configuration byte computed by the constructor is a
  bijection onto the bytes 0x00 to 0x03: the four bytes are pairwise distinct, each is
  the byte of the specification's table, looking it up in the table read backwards
  gives the range again, and a construction that returns a driver was given one of the
  four ranges.
\<close>

theorem ctrlReg0_bijection:
  "bij_betw ctrlReg0 {250, 500, 1000, 2000} {0x00, 0x01, 0x02, 0x03}
   \<and> distinct (map ctrlReg0 [250, 500, 1000, 2000])
   \<and> (\<forall>r \<in> {250, 500, 1000, 2000}.
         spec_config_byte r = Some (word_of_int (ctrlReg0 r))
         \<and> spec_range_of_config (word_of_int (ctrlReg0 r)) = Some r)
   \<and> (\<forall>r bus address w self w'.
         init bus address r w = (Inr self, w') \<longrightarrow> r \<in> {250, 500, 1000, 2000})"
proof (intro conjI)
  have img: "ctrlReg0 ` {250, 500, 1000, 2000} = {0x00, 0x01, 0x02, 0x03}"
    by (auto simp: ctrlReg0_def const_defs)
  have "inj_on ctrlReg0 {250, 500, 1000, 2000}"
    by (auto simp: inj_on_def ctrlReg0_def const_defs)
  with img show "bij_betw ctrlReg0 {250, 500, 1000, 2000} {0x00, 0x01, 0x02, 0x03}"
    by (simp add: bij_betw_def)
  show "distinct (map ctrlReg0 [250, 500, 1000, 2000])"
    by (simp add: ctrlReg0_def const_defs)
  show "\<forall>r \<in> {250, 500, 1000, 2000}.
         spec_config_byte r = Some (word_of_int (ctrlReg0 r))
         \<and> spec_range_of_config (word_of_int (ctrlReg0 r)) = Some r"
    by (simp add: ctrlReg0_def const_defs spec_config_byte_def spec_range_of_config_def)
  show "\<forall>r bus address w self w'.
         init bus address r w = (Inr self, w') \<longrightarrow> r \<in> {250, 500, 1000, 2000}"
  proof (intro allI impI)
    fix r bus address w self w'
    assume ok: "init bus address r w = (Inr self, w')"
    show "r \<in> {250, 500, 1000, 2000}"
    proof (rule ccontr)
      assume "r \<notin> {250, 500, 1000, 2000}"
      then have "init bus address r w = (Inl AssertionError, w)"
        by (simp add: init_def const_defs)
      with ok show False by simp
    qed
  qed
qed

theorem ctrlReg0_bijection_witness:
  "(500::int) \<in> {250, 500, 1000, 2000}
   \<and> spec_config_byte 500 = Some (word_of_int (ctrlReg0 500))
   \<and> spec_range_of_config (word_of_int (ctrlReg0 500)) = Some 500
   \<and> (\<forall>self w'. init (mock_i2c [0xD7]) FXAS21002C_ADDRESS 125 initial_world
                   \<noteq> (Inr self, w'))"
proof -
  have "init (mock_i2c [0xD7]) FXAS21002C_ADDRESS 125 initial_world \<noteq> (Inr self, w')"
    for self w'
  proof
    assume "init (mock_i2c [0xD7]) FXAS21002C_ADDRESS 125 initial_world = (Inr self, w')"
    with ctrlReg0_bijection have "(125::int) \<in> {250, 500, 1000, 2000}" by blast
    then show False by simp
  qed
  moreover have "(500::int) \<in> {250, 500, 1000, 2000}" by simp
  ultimately show ?thesis using ctrlReg0_bijection by blast
qed

section \<open>The buffer keeps its seven bytes\<close>

text \<open>
  The theorems on the driver assume a buffer of seven bytes. The module creates it so,
  and every operation of the driver keeps its length, whether it succeeds or not.
\<close>

lemma length_and_then:
  assumes "\<And>x w'. length (BUFFER (snd (f x w'))) = length (BUFFER w')"
  shows "length (BUFFER (snd (and_then m f))) = length (BUFFER (snd m))"
proof (cases m)
  case (Pair r w')
  then show ?thesis using assms by (cases r) (simp_all add: and_then_def)
qed

lemma length_with_device:
  assumes "\<And>w'. length (BUFFER (snd (body w'))) = length (BUFFER w')"
  shows "length (BUFFER (snd (with_device body w))) = length (BUFFER w)"
  using assms [of "device_enter w"]
  by (cases "body (device_enter w)") (simp add: with_device_def device_enter_def device_exit_def)

lemma length_setitem: "length (BUFFER (snd (setitem i v w))) = length (BUFFER w)"
  by (simp add: setitem_def)

lemma length_getitem: "length (BUFFER (snd (getitem i w))) = length (BUFFER w)"
  by (simp add: getitem_def)

lemma length_device_write: "length (BUFFER (snd (device_write d n s w))) = length (BUFFER w)"
  by (simp add: device_write_def Let_def)

lemma length_device_readinto:
  "length (BUFFER (snd (device_readinto d n w))) = length (BUFFER w)"
  by (simp add: device_readinto_def Let_def)

lemmas length_steps = length_and_then length_with_device length_setitem length_getitem
  length_device_write length_device_readinto

lemma length_read_u8: "length (BUFFER (snd (read_u8 self address w))) = length (BUFFER w)"
  by (simp add: read_u8_def length_steps)

lemma length_write_u8: "length (BUFFER (snd (write_u8 self address val w))) = length (BUFFER w)"
  by (simp add: write_u8_def length_steps)

lemma length_read_raw: "length (BUFFER (snd (read_raw self w))) = length (BUFFER w)"
  by (simp add: read_raw_def length_steps Let_def)

lemma length_gyroscope: "length (BUFFER (snd (gyroscope self w))) = length (BUFFER w)"
  by (simp add: gyroscope_def length_steps length_read_raw Let_def split: prod.splits)

lemma length_init: "length (BUFFER (snd (init bus address gyro_range w))) = length (BUFFER w)"
  by (simp add: init_def length_steps length_read_u8 length_write_u8 Let_def)

lemma length_initial_world: "length (BUFFER initial_world) = 7"
  by (simp add: initial_world_eq)

section \<open>Raw samples\<close>

lemma mock_reply: "reply (mock_i2c bytes) t i = (if i < length bytes then bytes ! i else 0)"
  by (simp add: mock_i2c_def)

lemma mock_fault: "fault (mock_i2c bytes) t = False"
  by (simp add: mock_i2c_def)

text \<open>
  Claim C2. When no transfer fails and the seven bytes read are status, xhi, xlo, yhi,
  ylo, zhi, zlo, \<^verbatim>\<open>read_raw\<close> returns the three values \<open>((hi << 8) | lo) & 0xFFFF\<close>
  for X, Y and Z in that order. For the bytes 0x00, 0x01, ..., 0x06 these are 0x0102,
  0x0304 and 0x0506, which is the instance that follows the theorem.
\<close>

theorem read_raw_packs_axes:
  assumes "length (BUFFER w) = 7"
    and "\<forall>t. \<not> fault (i2c (self_device self)) t"
    and "map (reply (i2c (self_device self)) (trace w @ [Enter, Write [0x80] False, Readinto 7]))
           [0..<7] = [status, xhi, xlo, yhi, ylo, zhi, zlo]"
  shows "fst (read_raw self w) =
           Inr ((push_bit 8 (uint xhi) OR uint xlo) AND 0xFFFF,
                (push_bit 8 (uint yhi) OR uint ylo) AND 0xFFFF,
                (push_bit 8 (uint zhi) OR uint zlo) AND 0xFFFF)"
proof -
  from assms(3) have
    "reply (i2c (self_device self)) (trace w @ [Enter, Write [0x80] False, Readinto 7]) 1 = xhi"
    "reply (i2c (self_device self)) (trace w @ [Enter, Write [0x80] False, Readinto 7]) 2 = xlo"
    "reply (i2c (self_device self)) (trace w @ [Enter, Write [0x80] False, Readinto 7]) 3 = yhi"
    "reply (i2c (self_device self)) (trace w @ [Enter, Write [0x80] False, Readinto 7]) 4 = ylo"
    "reply (i2c (self_device self)) (trace w @ [Enter, Write [0x80] False, Readinto 7]) 5 = zhi"
    "reply (i2c (self_device self)) (trace w @ [Enter, Write [0x80] False, Readinto 7]) 6 = zlo"
    by (simp_all add: upt_rec eval_nat_numeral)
  with assms(1,2) show ?thesis
    by (simp add: read_raw_reliable Let_def)
qed

theorem read_raw_packs_axes_witness:
  "fst (read_raw \<lparr>self_gyro_range = 250,
                  self_device = \<lparr>i2c = mock_i2c [0x00, 0x01, 0x02, 0x03, 0x04, 0x05, 0x06],
                                  device_address = 0x21\<rparr>\<rparr> initial_world)
   = Inr (0x0102, 0x0304, 0x0506)"
  using read_raw_packs_axes [of initial_world
     "\<lparr>self_gyro_range = 250,
       self_device = \<lparr>i2c = mock_i2c [0x00, 0x01, 0x02, 0x03, 0x04, 0x05, 0x06],
                       device_address = 0x21\<rparr>\<rparr>" "0x00" "0x01" "0x02" "0x03" "0x04" "0x05" "0x06"]
  by (simp add: initial_world_eq mock_reply mock_fault upt_rec pack_eq)

text \<open>
  Claim C6. When the write does not fail, a call of \<^verbatim>\<open>read_raw\<close> adds exactly one
  transaction to the trace: the bus is entered, the single byte \<open>0x00 | 0x80\<close> is
  written without a stop, seven bytes are read, the bus is left. The range of the driver
  object has no part in it: \<^verbatim>\<open>read_raw\<close> is the same function for every range, and the
  scaling of \<^verbatim>\<open>gyroscope\<close> adds nothing to the trace of its \<^verbatim>\<open>read_raw\<close>.
\<close>

theorem read_raw_one_transaction:
  assumes "length (BUFFER w) = 7"
    and "\<not> fault (i2c (self_device self)) (trace w @ [Enter, Write [0x80] False])"
  shows "trace (snd (read_raw self w)) = trace w @ [Enter, Write [0x80] False, Readinto 7, Exit]
       \<and> read_raw (self\<lparr>self_gyro_range := r\<rparr>) w = read_raw self w
       \<and> trace (snd (gyroscope self w)) = trace (snd (read_raw self w))"
proof (intro conjI)
  from assms(1) obtain a rest where "BUFFER w = a # rest" "length rest = 6"
    by (cases "BUFFER w") auto
  with assms(2) show
    "trace (snd (read_raw self w)) = trace w @ [Enter, Write [0x80] False, Readinto 7, Exit]"
    by (simp add: read_raw_def bus_defs GYRO_REGISTER_STATUS_def Let_def)
  have device: "self_device (self\<lparr>self_gyro_range := r\<rparr>) = self_device self"
    by simp
  show "read_raw (self\<lparr>self_gyro_range := r\<rparr>) w = read_raw self w"
    unfolding read_raw_def device by (rule refl)
  show "trace (snd (gyroscope self w)) = trace (snd (read_raw self w))"
    by (simp add: gyroscope_def and_then_def Let_def split: prod.splits sum.splits)
qed

theorem read_raw_one_transaction_witness:
  "trace (snd (read_raw \<lparr>self_gyro_range = 2000,
                  self_device = \<lparr>i2c = mock_i2c [0x00, 0x01, 0x02, 0x03, 0x04, 0x05, 0x06],
                                  device_address = 0x21\<rparr>\<rparr> initial_world))
     = [Enter, Write [0x80] False, Readinto 7, Exit]"
  using read_raw_one_transaction [of initial_world
     "\<lparr>self_gyro_range = 2000,
       self_device = \<lparr>i2c = mock_i2c [0x00, 0x01, 0x02, 0x03, 0x04, 0x05, 0x06],
                       device_address = 0x21\<rparr>\<rparr>"]
  by (simp add: initial_world_eq mock_fault)

text \<open>
  Claim C9. Two reads whose seven bytes agree on the bytes 1 to 6 return the same three
  values, whatever the two status bytes are: the status byte is not part of the result.
\<close>

theorem read_raw_ignores_status:
  assumes "length (BUFFER w) = 7"
    and "\<forall>t. \<not> fault (i2c (self_device self)) t"
    and "\<forall>t. \<not> fault (i2c (self_device self')) t"
    and "\<forall>i \<in> {1..6}.
           reply (i2c (self_device self)) (trace w @ [Enter, Write [0x80] False, Readinto 7]) i
         = reply (i2c (self_device self')) (trace w @ [Enter, Write [0x80] False, Readinto 7]) i"
  shows "fst (read_raw self w) = fst (read_raw self' w)"
  using assms by (simp add: read_raw_reliable Let_def)

theorem read_raw_ignores_status_witness:
  "fst (read_raw \<lparr>self_gyro_range = 250,
                  self_device = \<lparr>i2c = mock_i2c [0x00, 0x01, 0x02, 0x03, 0x04, 0x05, 0x06],
                                  device_address = 0x21\<rparr>\<rparr> initial_world)
   = fst (read_raw \<lparr>self_gyro_range = 250,
                  self_device = \<lparr>i2c = mock_i2c [0xFF, 0x01, 0x02, 0x03, 0x04, 0x05, 0x06],
                                  device_address = 0x21\<rparr>\<rparr> initial_world)"
  using read_raw_ignores_status [of initial_world
     "\<lparr>self_gyro_range = 250,
       self_device = \<lparr>i2c = mock_i2c [0x00, 0x01, 0x02, 0x03, 0x04, 0x05, 0x06],
                       device_address = 0x21\<rparr>\<rparr>"
     "\<lparr>self_gyro_range = 250,
       self_device = \<lparr>i2c = mock_i2c [0xFF, 0x01, 0x02, 0x03, 0x04, 0x05, 0x06],
                       device_address = 0x21\<rparr>\<rparr>"]
  by (simp add: initial_world_eq mock_reply mock_fault)

text \<open>
  Claim C10. Whatever the bytes of the bus are, \<^verbatim>\<open>read_raw\<close> returns three values
  between 0 and 65535.
\<close>

theorem read_raw_unsigned_16_bit:
  assumes "length (BUFFER w) = 7"
    and "\<forall>t. \<not> fault (i2c (self_device self)) t"
  shows "\<exists>raw_x raw_y raw_z. fst (read_raw self w) = Inr (raw_x, raw_y, raw_z)
           \<and> 0 \<le> raw_x \<and> raw_x \<le> 65535
           \<and> 0 \<le> raw_y \<and> raw_y \<le> 65535
           \<and> 0 \<le> raw_z \<and> raw_z \<le> 65535"
  using assms by (simp add: read_raw_reliable Let_def pack_bounds)

theorem read_raw_unsigned_16_bit_witness:
  "\<exists>raw_x raw_y raw_z.
      fst (read_raw \<lparr>self_gyro_range = 250,
                  self_device = \<lparr>i2c = mock_i2c [0xFF, 0xFF, 0xFF, 0xFF, 0xFF, 0xFF, 0xFF],
                                  device_address = 0x21\<rparr>\<rparr> initial_world)
        = Inr (raw_x, raw_y, raw_z)
      \<and> 0 \<le> raw_x \<and> raw_x \<le> 65535
      \<and> 0 \<le> raw_y \<and> raw_y \<le> 65535
      \<and> 0 \<le> raw_z \<and> raw_z \<le> 65535"
  using read_raw_unsigned_16_bit [of initial_world
     "\<lparr>self_gyro_range = 250,
       self_device = \<lparr>i2c = mock_i2c [0xFF, 0xFF, 0xFF, 0xFF, 0xFF, 0xFF, 0xFF],
                       device_address = 0x21\<rparr>\<rparr>"]
  by (simp add: initial_world_eq mock_fault)

section \<open>Scaled samples\<close>

lemma gyroscope_after_read_raw:
  assumes "read_raw self w = (Inr (raw_x, raw_y, raw_z), w')"
  shows "self_gyro_range self = 250 \<Longrightarrow> gyroscope self w =
      (Inr (Some (MapObject (\<lambda>x. float_mul (float_of_int x) GYRO_SENSITIVITY_250DPS)
                   [raw_x, raw_y, raw_z])), w')"
    and "self_gyro_range self = 500 \<Longrightarrow> gyroscope self w =
      (Inr (Some (MapObject (\<lambda>x. float_mul (float_of_int x) GYRO_SENSITIVITY_500DPS)
                   [raw_x, raw_y, raw_z])), w')"
    and "self_gyro_range self = 1000 \<Longrightarrow> gyroscope self w =
      (Inr (Some (MapObject (\<lambda>x. float_mul (float_of_int x) GYRO_SENSITIVITY_1000DPS)
                   [raw_x, raw_y, raw_z])), w')"
    and "self_gyro_range self = 2000 \<Longrightarrow> gyroscope self w =
      (Inr (Some (MapObject (\<lambda>x. float_mul (float_of_int x) GYRO_SENSITIVITY_2000DPS)
                   [raw_x, raw_y, raw_z])), w')"
  using assms by (simp_all add: gyroscope_def and_then_def const_defs)

text \<open>
  What one pass over the returned object yields: for each of the four ranges, with its
  sensitivity constant \<open>k\<close> taken from the table of the specification, three floats,
  for X, Y and Z in that order, each with the value of the raw integer times \<open>k\<close>.
\<close>

lemma gyroscope_yields_scaled:
  assumes "length (BUFFER w) = 7"
    and "\<forall>t. \<not> fault (i2c (self_device self)) t"
    and "spec_sensitivity (self_gyro_range self) = Some k"
  shows "\<exists>raw_x raw_y raw_z w' m fx fy fz.
           read_raw self w = (Inr (raw_x, raw_y, raw_z), w')
         \<and> gyroscope self w = (Inr (Some m), w')
         \<and> yields m = [fx, fy, fz]
         \<and> valof fx = of_int raw_x * k
         \<and> valof fy = of_int raw_y * k
         \<and> valof fz = of_int raw_z * k"
proof -
  obtain raw_x raw_y raw_z w' where rr: "read_raw self w = (Inr (raw_x, raw_y, raw_z), w')"
    and bx: "0 \<le> raw_x \<and> raw_x \<le> 65535"
    and by': "0 \<le> raw_y \<and> raw_y \<le> 65535"
    and bz: "0 \<le> raw_z \<and> raw_z \<le> 65535"
    using assms(1,2) by (simp add: read_raw_reliable Let_def pack_bounds)
  note g = gyroscope_after_read_raw [OF rr]
  have scaled: "\<exists>m fx fy fz.
           gyroscope self w = (Inr (Some m), w')
         \<and> yields m = [fx, fy, fz]
         \<and> valof fx = of_int raw_x * c
         \<and> valof fy = of_int raw_y * c
         \<and> valof fz = of_int raw_z * c"
    if "gyroscope self w =
          (Inr (Some (MapObject (\<lambda>x. float_mul (float_of_int x) s) [raw_x, raw_y, raw_z])), w')"
      and "\<And>x. 0 \<le> x \<Longrightarrow> x \<le> 65535 \<Longrightarrow> valof (float_mul (float_of_int x) s) = of_int x * c"
    for s c
    using that(1) that(2) [of raw_x] that(2) [of raw_y] that(2) [of raw_z] bx by' bz
    by simp
  from assms(3) consider
      "self_gyro_range self = 250" "k = 0.0078125"
    | "self_gyro_range self = 500" "k = 0.015625"
    | "self_gyro_range self = 1000" "k = 0.03125"
    | "self_gyro_range self = 2000" "k = 0.0625"
    by (auto simp: spec_sensitivity_def split: if_splits)
  then have "\<exists>m fx fy fz.
           gyroscope self w = (Inr (Some m), w')
         \<and> yields m = [fx, fy, fz]
         \<and> valof fx = of_int raw_x * k
         \<and> valof fy = of_int raw_y * k
         \<and> valof fz = of_int raw_z * k"
  proof cases
    case 1
    show ?thesis
      unfolding 1(2) by (rule scaled [OF g(1) [OF 1(1)]]) (rule scale_sensitivity(1))
  next
    case 2
    show ?thesis
      unfolding 2(2) by (rule scaled [OF g(2) [OF 2(1)]]) (rule scale_sensitivity(2))
  next
    case 3
    show ?thesis
      unfolding 3(2) by (rule scaled [OF g(3) [OF 3(1)]]) (rule scale_sensitivity(3))
  next
    case 4
    show ?thesis
      unfolding 4(2) by (rule scaled [OF g(4) [OF 4(1)]]) (rule scale_sensitivity(4))
  qed
  with rr show ?thesis by blast
qed

text \<open>
  Claim C3. The claim and the docstring of the property say that it returns a 3-tuple
  of floats in radians per second. The code returns the map object instead. With range
  500 and a bus that answers the burst read with the bytes 0x00, 0x01, ..., 0x06, the
  result is the map object over the raw values 258, 772 and 1286, with no product
  computed yet. One pass over it yields 4.03125, 12.0625 and 20.09375, for X, Y and Z in
  that order: the raw values times 0.015625, with no factor to turn degrees into
  radians. Taking the first item leaves an object that yields only the other two, so
  the object is used up by reading it, which a tuple is not.
\<close>

theorem gyroscope_returns_map_object:
  "(\<exists>w'. gyroscope \<lparr>self_gyro_range = 500,
                     self_device = \<lparr>i2c = mock_i2c [0x00, 0x01, 0x02, 0x03, 0x04, 0x05, 0x06],
                                     device_address = 0x21\<rparr>\<rparr> initial_world
           = (Inr (Some (MapObject (\<lambda>x. float_mul (float_of_int x) GYRO_SENSITIVITY_500DPS)
                           [258, 772, 1286])), w'))
   \<and> map valof (yields (MapObject (\<lambda>x. float_mul (float_of_int x) GYRO_SENSITIVITY_500DPS)
                          [258, 772, 1286]))
       = [4.03125, 12.0625, 20.09375]
   \<and> (\<exists>fx. next_item (MapObject (\<lambda>x. float_mul (float_of_int x) GYRO_SENSITIVITY_500DPS)
                          [258, 772, 1286])
             = Some (fx, MapObject (\<lambda>x. float_mul (float_of_int x) GYRO_SENSITIVITY_500DPS)
                          [772, 1286])
           \<and> valof fx = 4.03125)
   \<and> map valof (yields (MapObject (\<lambda>x. float_mul (float_of_int x) GYRO_SENSITIVITY_500DPS)
                          [772, 1286]))
       = [12.0625, 20.09375]"
proof (intro conjI)
  let ?self = "\<lparr>self_gyro_range = 500,
                 self_device = \<lparr>i2c = mock_i2c [0x00, 0x01, 0x02, 0x03, 0x04, 0x05, 0x06],
                                 device_address = 0x21\<rparr>\<rparr>"
  have "read_raw ?self initial_world
      = (Inr (258, 772, 1286), snd (read_raw ?self initial_world))"
    by (simp add: read_raw_reliable initial_world_eq mock_reply mock_fault Let_def pack_eq)
  then have "gyroscope ?self initial_world
      = (Inr (Some (MapObject (\<lambda>x. float_mul (float_of_int x) GYRO_SENSITIVITY_500DPS)
                      [258, 772, 1286])),
         snd (read_raw ?self initial_world))"
    by (rule gyroscope_after_read_raw(2)) simp
  then show "\<exists>w'. gyroscope ?self initial_world
      = (Inr (Some (MapObject (\<lambda>x. float_mul (float_of_int x) GYRO_SENSITIVITY_500DPS)
                      [258, 772, 1286])), w')"
    by blast
qed (simp_all add: scale_sensitivity)

text \<open>
  Claim C5. The four sensitivity constants are the decimal numbers of the source and are
  powers of two. For every raw value from 0 to 65535 the float product with each
  constant is the exact product: rounding changes nothing. With range 250 the raw sample
  (258, 0, 0) gives (2.015625, 0, 0), and with range 2000 the raw value 16 gives 1.0,
  as the values that the object returned by \<^verbatim>\<open>gyroscope\<close> yields.
\<close>

theorem scaling_is_exact:
  "valof GYRO_SENSITIVITY_250DPS = 0.0078125 \<and> valof GYRO_SENSITIVITY_250DPS = 1 / 2 ^ 7
   \<and> valof GYRO_SENSITIVITY_500DPS = 0.015625 \<and> valof GYRO_SENSITIVITY_500DPS = 1 / 2 ^ 6
   \<and> valof GYRO_SENSITIVITY_1000DPS = 0.03125 \<and> valof GYRO_SENSITIVITY_1000DPS = 1 / 2 ^ 5
   \<and> valof GYRO_SENSITIVITY_2000DPS = 0.0625 \<and> valof GYRO_SENSITIVITY_2000DPS = 1 / 2 ^ 4
   \<and> (\<forall>x \<in> {0..65535}.
        \<forall>s \<in> {GYRO_SENSITIVITY_250DPS, GYRO_SENSITIVITY_500DPS,
                GYRO_SENSITIVITY_1000DPS, GYRO_SENSITIVITY_2000DPS}.
          valof (float_mul (float_of_int x) s) = of_int x * valof s)
   \<and> (\<exists>m fx fy fz.
        fst (gyroscope \<lparr>self_gyro_range = 250,
                        self_device = \<lparr>i2c = mock_i2c [0x00, 0x01, 0x02, 0x00, 0x00, 0x00, 0x00],
                                        device_address = 0x21\<rparr>\<rparr> initial_world)
          = Inr (Some m)
        \<and> yields m = [fx, fy, fz]
        \<and> valof fx = 2.015625 \<and> valof fy = 0 \<and> valof fz = 0)
   \<and> (\<exists>m fx fy fz.
        fst (gyroscope \<lparr>self_gyro_range = 2000,
                        self_device = \<lparr>i2c = mock_i2c [0x00, 0x00, 0x10, 0x00, 0x00, 0x00, 0x00],
                                        device_address = 0x21\<rparr>\<rparr> initial_world)
          = Inr (Some m)
        \<and> yields m = [fx, fy, fz]
        \<and> valof fx = 1.0 \<and> valof fy = 0 \<and> valof fz = 0)"
proof (intro conjI)
  show "\<forall>x \<in> {0..65535}.
        \<forall>s \<in> {GYRO_SENSITIVITY_250DPS, GYRO_SENSITIVITY_500DPS,
                GYRO_SENSITIVITY_1000DPS, GYRO_SENSITIVITY_2000DPS}.
          valof (float_mul (float_of_int x) s) = of_int x * valof s"
    by (auto simp: scale_sensitivity valof_sensitivity)
next
  let ?self = "\<lparr>self_gyro_range = 250,
                 self_device = \<lparr>i2c = mock_i2c [0x00, 0x01, 0x02, 0x00, 0x00, 0x00, 0x00],
                                 device_address = 0x21\<rparr>\<rparr>"
  have "read_raw ?self initial_world = (Inr (258, 0, 0), snd (read_raw ?self initial_world))"
    by (simp add: read_raw_reliable initial_world_eq mock_reply mock_fault Let_def pack_eq)
  then have "gyroscope ?self initial_world
      = (Inr (Some (MapObject (\<lambda>x. float_mul (float_of_int x) GYRO_SENSITIVITY_250DPS)
                      [258, 0, 0])),
         snd (read_raw ?self initial_world))"
    by (rule gyroscope_after_read_raw(1)) simp
  then show "\<exists>m fx fy fz. fst (gyroscope ?self initial_world) = Inr (Some m)
        \<and> yields m = [fx, fy, fz]
        \<and> valof fx = 2.015625 \<and> valof fy = 0 \<and> valof fz = 0"
    by (simp add: scale_sensitivity)
next
  let ?self = "\<lparr>self_gyro_range = 2000,
                 self_device = \<lparr>i2c = mock_i2c [0x00, 0x00, 0x10, 0x00, 0x00, 0x00, 0x00],
                                 device_address = 0x21\<rparr>\<rparr>"
  have "read_raw ?self initial_world = (Inr (16, 0, 0), snd (read_raw ?self initial_world))"
    by (simp add: read_raw_reliable initial_world_eq mock_reply mock_fault Let_def pack_eq)
  then have "gyroscope ?self initial_world
      = (Inr (Some (MapObject (\<lambda>x. float_mul (float_of_int x) GYRO_SENSITIVITY_2000DPS)
                      [16, 0, 0])),
         snd (read_raw ?self initial_world))"
    by (rule gyroscope_after_read_raw(4)) simp
  then show "\<exists>m fx fy fz. fst (gyroscope ?self initial_world) = Inr (Some m)
        \<and> yields m = [fx, fy, fz]
        \<and> valof fx = 1.0 \<and> valof fy = 0 \<and> valof fz = 0"
    by (simp add: scale_sensitivity)
qed (simp_all add: valof_sensitivity)

theorem scaling_is_exact_witness:
  "(258::int) \<in> {0..65535}
   \<and> valof (float_mul (float_of_int 258) GYRO_SENSITIVITY_250DPS) = 2.015625
   \<and> valof (float_mul (float_of_int 16) GYRO_SENSITIVITY_2000DPS) = 1.0"
proof -
  have "(258::int) \<in> {0..65535}" "(16::int) \<in> {0..65535}" by simp_all
  with scaling_is_exact have
    "valof (float_mul (float_of_int 258) GYRO_SENSITIVITY_250DPS)
       = of_int 258 * valof GYRO_SENSITIVITY_250DPS"
    "valof (float_mul (float_of_int 16) GYRO_SENSITIVITY_2000DPS)
       = of_int 16 * valof GYRO_SENSITIVITY_2000DPS"
    by blast+
  moreover from scaling_is_exact have "valof GYRO_SENSITIVITY_250DPS = 0.0078125"
    "valof GYRO_SENSITIVITY_2000DPS = 0.0625" by blast+
  ultimately show ?thesis by simp
qed

end
